theory Spec2Isabelle
  imports Complex_Main "HOL-Library.Log_Nat"
begin

section \<open>JavaScript values reaching the screen\<close>

text \<open>
  \<^verbatim>\<open>screens/HomeScreen.js\<close> receives \<^verbatim>\<open>response.data\<close> from axios: whatever JSON
  the backend sent (or a string when the body is not JSON).  A finite number is kept as the
  exact rational value of its binary64 representation; an object is the list of its
  members, looked up by key.
\<close>

datatype jsval =
    JUndefined
  | JNull
  | JBool bool
  | JNum rat
  | JStr string
  | JArr "jsval list"
  | JObj "(string \<times> jsval) list"

text \<open>Truthiness, as tested by \<^verbatim>\<open>&&\<close>, \<^verbatim>\<open>?:\<close> and \<^verbatim>\<open>if\<close>.\<close>

fun truthy :: "jsval \<Rightarrow> bool" where
  "truthy JUndefined = False"
| "truthy JNull = False"
| "truthy (JBool b) = b"
| "truthy (JNum x) = (x \<noteq> 0)"
| "truthy (JStr s) = (s \<noteq> [])"
| "truthy (JArr xs) = True"
| "truthy (JObj fs) = True"

text \<open>
  Member access \<^verbatim>\<open>v.k\<close> on a value that is neither null nor undefined, for the keys
  the screen reads (\<^verbatim>\<open>prediction\<close>, \<^verbatim>\<open>confidence\<close>): a member of an object, and
  undefined on every other value.
\<close>

fun get_field :: "jsval \<Rightarrow> string \<Rightarrow> jsval" where
  "get_field (JObj fs) k = (case map_of fs k of Some v \<Rightarrow> v | None \<Rightarrow> JUndefined)"
| "get_field v k = JUndefined"

section \<open>Numbers: binary64 rounding and \<^verbatim>\<open>toFixed(2)\<close>\<close>

definition digit_char :: "nat \<Rightarrow> char" where
  "digit_char d = ''0123456789'' ! d"

fun show_nat :: "nat \<Rightarrow> string" where
  "show_nat n =
     (if n < 10 then [digit_char n] else show_nat (n div 10) @ [digit_char (n mod 10)])"

declare show_nat.simps [simp del]

definition pow2 :: "int \<Rightarrow> rat" where
  "pow2 e = (if 0 \<le> e then 2 ^ nat e else 1 / 2 ^ nat (- e))"

text \<open>The binary exponent of a positive rational: \<open>2 ^ binade a \<le> a < 2 ^ (binade a + 1)\<close>.\<close>

definition binade :: "rat \<Rightarrow> int" where
  "binade a = (if 1 \<le> a then bitlen \<lfloor>a\<rfloor> - 1 else - bitlen (\<lceil>1 / a\<rceil> - 1))"

definition round_half_even :: "rat \<Rightarrow> int" where
  "round_half_even y =
     (let f = \<lfloor>y\<rfloor>; d = y - of_int f
      in if d < 1 / 2 then f else if 1 / 2 < d then f + 1
         else if even f then f else f + 1)"

text \<open>
  The binary64 number nearest to a rational (ties to the even significand), with 53
  significant bits and the subnormal spacing \<open>2 ^ - 1074\<close> at the bottom.  Overflow to
  Infinity is outside this function; its callers stay below \<open>10 ^ 21\<close>.
\<close>

definition to_double :: "rat \<Rightarrow> rat" where
  "to_double x =
     (if x = 0 then 0
      else let a = \<bar>x\<bar>;
               e = max (binade a - 52) (- 1074);
               m = round_half_even (a / pow2 e)
           in sgn x * of_int m * pow2 e)"

text \<open>
  \<^verbatim>\<open>Number.prototype.toFixed(2)\<close> on a finite number of magnitude below \<open>10 ^ 21\<close>:
  the integer \<open>n\<close> with \<open>n / 100\<close> closest to the magnitude (the larger one on a tie),
  written with at least three digits and a point before the last two; a minus sign in
  front when the number is negative.
\<close>

definition toFixed2 :: "rat \<Rightarrow> string" where
  "toFixed2 x =
     (let n = nat \<lfloor>\<bar>x\<bar> * 100 + 1 / 2\<rfloor>;
          m = show_nat n;
          m' = (if length m \<le> 2 then replicate (3 - length m) (CHR ''0'') @ m else m);
          k = length m'
      in (if x < 0 then ''-'' else '''') @ take (k - 2) m' @ ''.'' @ drop (k - 2) m')"

text \<open>
  The conversions of the JavaScript runtime that the screen applies to values of any type
  and that are not modelled here are parameters: \<open>toString_other\<close> is the string
  conversion of a non-string value inside a template literal, \<open>toFixed_other\<close> is
  \<^verbatim>\<open>(v * 100).toFixed(2)\<close> for a value that is not a number or whose product
  reaches \<open>10 ^ 21\<close>, \<open>json_stringify\<close> is \<^verbatim>\<open>JSON.stringify\<close> inside a template literal.
\<close>

record runtime =
  toString_other :: "jsval \<Rightarrow> string"
  toFixed_other :: "jsval \<Rightarrow> string"
  json_stringify :: "jsval \<Rightarrow> string"

definition js_to_string :: "runtime \<Rightarrow> jsval \<Rightarrow> string" where
  "js_to_string rt v = (case v of JStr s \<Rightarrow> s | _ \<Rightarrow> toString_other rt v)"

text \<open>The template \<^verbatim>\<open>`${(response.data.confidence * 100).toFixed(2)}%`\<close> (line 124).\<close>

definition confidence_text :: "runtime \<Rightarrow> jsval \<Rightarrow> string" where
  "confidence_text rt c =
     (case c of
        JNum x \<Rightarrow>
          (let y = to_double (x * 100)
           in if \<bar>y\<bar> < 10 ^ 21 then toFixed2 y else toFixed_other rt c)
      | _ \<Rightarrow> toFixed_other rt c) @ ''%''"

section \<open>The component state of \<^verbatim>\<open>HomeScreen\<close>\<close>

text \<open>
  A recording object returned by \<^verbatim>\<open>Audio.Recording.createAsync\<close>: its identity and
  what \<^verbatim>\<open>getURI()\<close> returns (\<open>None\<close> is null).
\<close>

datatype recording_obj = Recording (rid: nat) (getURI: "string option")

text \<open>
  An error object: \<^verbatim>\<open>message\<close>, and the two members axios adds, \<^verbatim>\<open>response\<close> (status
  and body, when the server answered outside 2xx) and \<^verbatim>\<open>request\<close> (tested for truthiness).
\<close>

datatype js_error =
  JsError (message: string) (response: "(nat \<times> jsval) option") (request: bool)

text \<open>
  An asynchronous function suspended at an \<^verbatim>\<open>await\<close>.  \<open>caller\<close> tells whether
  \<^verbatim>\<open>stopRecording\<close> was called by \<^verbatim>\<open>handleRecordButtonPress\<close> (line 88) or by
  \<^verbatim>\<open>startRecording\<close> (line 29).  A suspended function keeps the \<^verbatim>\<open>recording\<close> of the
  render whose closure it is.
\<close>

datatype caller = ByPress | ByStart

datatype task =
    AwaitPermission
  | AwaitStopUnload caller recording_obj
  | AwaitStopMode caller recording_obj
  | AwaitStartMode
  | AwaitCreate
  | AwaitPost string

text \<open>
  The five \<^verbatim>\<open>useState\<close> cells (lines 11 to 15), the calls of \<^verbatim>\<open>Alert.alert\<close> made
  so far (title and message, oldest first), the suspended functions, and on the side of
  the recorder the recordings that \<^verbatim>\<open>createAsync\<close> has returned and that no fulfilled
  \<^verbatim>\<open>stopAndUnloadAsync\<close> has unloaded yet.
\<close>

record state =
  recording :: "recording_obj option"
  isRecording :: bool
  prediction :: jsval
  confidence :: string
  vowelToRecord :: string
  alerts :: "(string \<times> string) list"
  tasks :: "task list"
  live :: "nat list"

definition init :: state where
  "init = \<lparr>recording = None, isRecording = False,
           prediction = JStr ''No prediction yet'', confidence = [],
           vowelToRecord = ''a'', alerts = [], tasks = [AwaitPermission], live = []\<rparr>"

definition alert :: "string \<Rightarrow> string \<Rightarrow> state \<Rightarrow> state" where
  "alert title msg s = s\<lparr>alerts := alerts s @ [(title, msg)]\<rparr>"

definition backendUrl :: string where
  "backendUrl = ''http://localhost:8000/predict/''"

section \<open>What the screen shows (lines 155 to 187)\<close>

text \<open>
  The parts of the screen that depend on the state: the status, the confidence line
  (present only for a truthy, that is non-empty, confidence string), the button and the
  vowel.  The title, the instructions and the navigation button are the same in every
  state and are left out.  \<open>status_text\<close> is the value handed to the \<^verbatim>\<open>Text\<close> element
  at line 160, as it is stored; what React does with a child that is not a string (it
  refuses a plain object) is not part of \<open>render\<close>, and every statement below that
  reads the screen is about a state whose status is a string.
\<close>

record screen =
  status_text :: jsval
  confidence_line :: "string option"
  button_title :: string
  button_color :: string
  vowel_line :: string

definition render :: "state \<Rightarrow> screen" where
  "render s =
     \<lparr>status_text = prediction s,
      confidence_line =
        (if confidence s \<noteq> [] then Some (''Confidence: '' @ confidence s) else None),
      button_title = (if isRecording s then ''Stop Recording'' else ''Start Recording''),
      button_color = (if isRecording s then ''red'' else ''green''),
      vowel_line = ''Vowel to record: '' @ [CHR 0x22] @ vowelToRecord s @ [CHR 0x22]\<rparr>"

section \<open>The handlers, one step per \<^verbatim>\<open>await\<close>\<close>

text \<open>
  Every function below runs one synchronous stretch of the source: it returns the state
  after the \<^verbatim>\<open>set...\<close> calls of the stretch, and the \<^verbatim>\<open>await\<close> at which the function
  is suspended next (\<open>None\<close> when it has returned or thrown).
\<close>

text \<open>The \<^verbatim>\<open>catch\<close> of \<^verbatim>\<open>startRecording\<close> (lines 59 to 68).\<close>

definition startRecording_catch :: "js_error \<Rightarrow> state \<Rightarrow> state \<times> task option" where
  "startRecording_catch err s =
     ((alert ''Recording Error''
         (''Failed to start recording: '' @ message err
            @ ''. Check browser microphone permissions.'') s)
        \<lparr>isRecording := False, prediction := JStr ''Error''\<rparr>,
      None)"

text \<open>
  What a rejection inside \<^verbatim>\<open>stopRecording\<close> does: nothing catches it under
  \<^verbatim>\<open>handleRecordButtonPress\<close>; \<^verbatim>\<open>startRecording\<close> catches it.
\<close>

definition stopRecording_throw :: "caller \<Rightarrow> js_error \<Rightarrow> state \<Rightarrow> state \<times> task option" where
  "stopRecording_throw c err s =
     (case c of ByPress \<Rightarrow> (s, None) | ByStart \<Rightarrow> startRecording_catch err s)"

text \<open>
  \<^verbatim>\<open>stopRecording\<close> up to its first \<^verbatim>\<open>await\<close> (lines 72 to 74); reading a member
  of a null \<^verbatim>\<open>recording\<close> throws a TypeError.
\<close>

definition stopRecording :: "caller \<Rightarrow> state \<Rightarrow> state \<times> task option" where
  "stopRecording c s =
     (let s1 = s\<lparr>isRecording := False\<rparr>
      in case recording s of
           None \<Rightarrow>
             stopRecording_throw c
               (JsError ''Cannot read properties of null'' None False) s1
         | Some r \<Rightarrow> (s1, Some (AwaitStopUnload c r)))"

text \<open>\<^verbatim>\<open>startRecording\<close> up to its first \<^verbatim>\<open>await\<close> (lines 27 to 47).\<close>

definition startRecording :: "state \<Rightarrow> state \<times> task option" where
  "startRecording s =
     (case recording s of
        Some r \<Rightarrow> stopRecording ByStart s
      | None \<Rightarrow> (s, Some AwaitStartMode))"

text \<open>\<^verbatim>\<open>handleRecordButtonPress\<close> up to its first \<^verbatim>\<open>await\<close> (lines 86 to 95).\<close>

definition handleRecordButtonPress :: "state \<Rightarrow> state \<times> task option" where
  "handleRecordButtonPress s =
     (if isRecording s then stopRecording ByPress s else startRecording s)"

text \<open>\<^verbatim>\<open>uploadAudio\<close> up to \<^verbatim>\<open>await axios.post\<close> (lines 98 to 119).\<close>

definition uploadAudio :: "string \<Rightarrow> state \<Rightarrow> state \<times> task option" where
  "uploadAudio audioUri s =
     (s\<lparr>prediction := JStr ''Sending to backend...''\<rparr>, Some (AwaitPost audioUri))"

text \<open>\<^verbatim>\<open>uploadAudio\<close> after a 2xx response with body \<open>data\<close> (lines 121 to 130).\<close>

definition uploadAudio_response :: "runtime \<Rightarrow> jsval \<Rightarrow> state \<Rightarrow> state" where
  "uploadAudio_response rt data s =
     (if truthy data \<and> truthy (get_field data ''prediction'') then
        alert ''Prediction Received''
          (''Prediction: '' @ js_to_string rt (get_field data ''prediction''))
          (s\<lparr>prediction := get_field data ''prediction'',
             confidence :=
               (if truthy (get_field data ''confidence'')
                then confidence_text rt (get_field data ''confidence'') else [])\<rparr>)
      else
        alert ''Error'' ''Prediction not found in backend response.''
          (s\<lparr>prediction := JStr ''Prediction not found in response.'',
             confidence := []\<rparr>))"

text \<open>The \<^verbatim>\<open>catch\<close> of \<^verbatim>\<open>uploadAudio\<close> (lines 132 to 152).\<close>

definition uploadAudio_catch :: "runtime \<Rightarrow> js_error \<Rightarrow> state \<Rightarrow> state" where
  "uploadAudio_catch rt err s =
     (let s1 = s\<lparr>prediction := JStr ''Error sending to backend.'', confidence := []\<rparr>
      in case response err of
           Some (status, body) \<Rightarrow>
             alert ''Backend Error''
               (''Server responded with status '' @ show_nat status @ '': ''
                  @ json_stringify rt body) s1
         | None \<Rightarrow>
             if request err then
               alert ''Network Error''
                 (''No response from backend. Is it running at '' @ backendUrl @ ''?'') s1
             else
               alert ''Error'' (''Could not send request: '' @ message err) s1)"

text \<open>What the promise awaited by a suspended function settles with.\<close>

datatype reply =
    Fulfilled
  | FulfilledPermission string
  | FulfilledRecording recording_obj
  | FulfilledResponse jsval
  | Rejected js_error

text \<open>
  A suspended function resumed with the outcome of its \<^verbatim>\<open>await\<close>.  A reply of the wrong
  kind for the awaited call is no event of the program: the function stays suspended.
\<close>

fun resume :: "runtime \<Rightarrow> task \<Rightarrow> reply \<Rightarrow> state \<Rightarrow> state \<times> task option" where
  \<comment> \<open>lines 18 to 23\<close>
  "resume rt AwaitPermission (FulfilledPermission status) s =
     (if status \<noteq> ''granted''
      then (alert ''Permission required''
              ''Please grant microphone access to use this app.'' s, None)
      else (s, None))"
| "resume rt AwaitPermission (Rejected err) s = (s, None)"
  \<comment> \<open>line 74, then line 75\<close>
| "resume rt (AwaitStopUnload c r) Fulfilled s =
     (s\<lparr>live := removeAll (rid r) (live s)\<rparr>, Some (AwaitStopMode c r))"
| "resume rt (AwaitStopUnload c r) (Rejected err) s = stopRecording_throw c err s"
  \<comment> \<open>lines 79 to 83, then lines 89 to 91 or lines 32 to 47\<close>
| "resume rt (AwaitStopMode c r) Fulfilled s =
     (let s1 = s\<lparr>prediction := JStr ''Processing...'', confidence := []\<rparr>
      in case c of
           ByPress \<Rightarrow>
             (case getURI r of
                Some audioUri \<Rightarrow> if audioUri \<noteq> [] then uploadAudio audioUri s1 else (s1, None)
              | None \<Rightarrow> (s1, None))
         | ByStart \<Rightarrow> (s1, Some AwaitStartMode))"
| "resume rt (AwaitStopMode c r) (Rejected err) s = stopRecording_throw c err s"
  \<comment> \<open>line 47, then lines 49 to 52\<close>
| "resume rt AwaitStartMode Fulfilled s = (s, Some AwaitCreate)"
| "resume rt AwaitStartMode (Rejected err) s = startRecording_catch err s"
  \<comment> \<open>lines 53 to 57\<close>
| "resume rt AwaitCreate (FulfilledRecording newRecording) s =
     (s\<lparr>recording := Some newRecording, isRecording := True,
        prediction := JStr ''Recording...'', confidence := [],
        live := rid newRecording # live s\<rparr>, None)"
| "resume rt AwaitCreate (Rejected err) s = startRecording_catch err s"
  \<comment> \<open>lines 121 to 152\<close>
| "resume rt (AwaitPost audioUri) (FulfilledResponse data) s =
     (uploadAudio_response rt data s, None)"
| "resume rt (AwaitPost audioUri) (Rejected err) s = (uploadAudio_catch rt err s, None)"
| "resume rt t r s = (s, Some t)"

section \<open>Executions\<close>

text \<open>
  An execution is a sequence of events: a press of the record button, or the settling of
  the promise that the \<open>i\<close>-th suspended function awaits.  State updates are committed
  before the next event.  A function suspended again keeps its place in \<open>tasks\<close>; one that
  has finished is removed.
\<close>

datatype event = Press | Settle nat reply

definition press :: "state \<Rightarrow> state" where
  "press s =
     (let (s', k) = handleRecordButtonPress s
      in s'\<lparr>tasks := tasks s @ (case k of Some t \<Rightarrow> [t] | None \<Rightarrow> [])\<rparr>)"

definition settle :: "runtime \<Rightarrow> nat \<Rightarrow> reply \<Rightarrow> state \<Rightarrow> state" where
  "settle rt i r s =
     (if i < length (tasks s) then
        let (s', k) = resume rt (tasks s ! i) r s
        in s'\<lparr>tasks := (case k of
                           Some t \<Rightarrow> (tasks s)[i := t]
                         | None \<Rightarrow> take i (tasks s) @ drop (Suc i) (tasks s))\<rparr>
      else s)"

fun step :: "runtime \<Rightarrow> state \<Rightarrow> event \<Rightarrow> state" where
  "step rt s Press = press s"
| "step rt s (Settle i r) = settle rt i r s"

definition run :: "runtime \<Rightarrow> state \<Rightarrow> event list \<Rightarrow> state" where
  "run rt s es = foldl (step rt) s es"

text \<open>The number of uploads in flight.\<close>

fun is_upload :: "task \<Rightarrow> bool" where
  "is_upload (AwaitPost u) = True"
| "is_upload t = False"

definition uploads :: "state \<Rightarrow> nat" where
  "uploads s = length (filter is_upload (tasks s))"

text \<open>
  A suspended \<^verbatim>\<open>startRecording\<close>: at one of its own two \<^verbatim>\<open>await\<close>s, or inside the
  \<^verbatim>\<open>stopRecording\<close> it called.
\<close>

fun is_start :: "task \<Rightarrow> bool" where
  "is_start (AwaitStopUnload ByStart r) = True"
| "is_start (AwaitStopMode ByStart r) = True"
| "is_start AwaitStartMode = True"
| "is_start AwaitCreate = True"
| "is_start t = False"

text \<open>An execution in which no press arrives while a \<^verbatim>\<open>startRecording\<close> is suspended.\<close>

fun calm :: "runtime \<Rightarrow> state \<Rightarrow> event list \<Rightarrow> bool" where
  "calm rt s [] = True"
| "calm rt s (e # es) =
     ((case e of Press \<Rightarrow> filter is_start (tasks s) = [] | Settle i r \<Rightarrow> True)
      \<and> calm rt (step rt s e) es)"

text \<open>The event in which \<^verbatim>\<open>createAsync\<close> returns a recording.\<close>

fun is_created :: "event \<Rightarrow> bool" where
  "is_created (Settle i (FulfilledRecording r)) = True"
| "is_created e = False"

section \<open>Transitions\<close>

text \<open>
  The steps that write the status: \<^verbatim>\<open>createAsync\<close> has returned (lines 53 to 57), a
  start has failed (lines 59 to 68), \<^verbatim>\<open>stopRecording\<close> has completed (lines 79 to 83,
  followed by line 99 when the press called it and the URI is truthy), the backend has
  answered with or without a prediction (lines 122 to 130), the upload has failed (lines
  132 to 135).  \<open>taken\<close> reads the transition off the event and the suspended function it
  settles; \<open>cells_after\<close> is what the transition leaves in the four cells written by the
  handlers.
\<close>

datatype transition =
    Started recording_obj
  | StartFailed js_error
  | Stopped caller recording_obj
  | Succeeded jsval
  | NotFound jsval
  | UploadFailed js_error

fun transition_of :: "task \<Rightarrow> reply \<Rightarrow> transition option" where
  "transition_of AwaitCreate (FulfilledRecording n) = Some (Started n)"
| "transition_of AwaitCreate (Rejected err) = Some (StartFailed err)"
| "transition_of AwaitStartMode (Rejected err) = Some (StartFailed err)"
| "transition_of (AwaitStopUnload ByStart r) (Rejected err) = Some (StartFailed err)"
| "transition_of (AwaitStopMode ByStart r) (Rejected err) = Some (StartFailed err)"
| "transition_of (AwaitStopMode c r) Fulfilled = Some (Stopped c r)"
| "transition_of (AwaitPost u) (FulfilledResponse data) =
     Some (if truthy data \<and> truthy (get_field data ''prediction'')
           then Succeeded data else NotFound data)"
| "transition_of (AwaitPost u) (Rejected err) = Some (UploadFailed err)"
| "transition_of t r = None"

fun taken :: "state \<Rightarrow> event \<Rightarrow> transition option" where
  "taken s Press = None"
| "taken s (Settle i r) =
     (if i < length (tasks s) then transition_of (tasks s ! i) r else None)"

definition has_uri :: "recording_obj \<Rightarrow> bool" where
  "has_uri r = (case getURI r of Some u \<Rightarrow> u \<noteq> [] | None \<Rightarrow> False)"

fun cells_after :: "runtime \<Rightarrow> state \<Rightarrow> state \<Rightarrow> transition \<Rightarrow> bool" where
  "cells_after rt s s' (Started n) =
     (prediction s' = JStr ''Recording...'' \<and> confidence s' = []
      \<and> recording s' = Some n \<and> isRecording s')"
| "cells_after rt s s' (StartFailed err) =
     (prediction s' = JStr ''Error'' \<and> confidence s' = confidence s
      \<and> recording s' = recording s \<and> \<not> isRecording s')"
| "cells_after rt s s' (Stopped c r) =
     (prediction s' =
        JStr (if c = ByPress \<and> has_uri r then ''Sending to backend...'' else ''Processing...'')
      \<and> confidence s' = []
      \<and> recording s' = recording s \<and> isRecording s' = isRecording s)"
| "cells_after rt s s' (Succeeded data) =
     (prediction s' = get_field data ''prediction''
      \<and> confidence s' =
           (if truthy (get_field data ''confidence'')
            then confidence_text rt (get_field data ''confidence'') else [])
      \<and> recording s' = recording s \<and> isRecording s' = isRecording s)"
| "cells_after rt s s' (NotFound data) =
     (prediction s' = JStr ''Prediction not found in response.'' \<and> confidence s' = []
      \<and> recording s' = recording s \<and> isRecording s' = isRecording s)"
| "cells_after rt s s' (UploadFailed err) =
     (prediction s' = JStr ''Error sending to backend.'' \<and> confidence s' = []
      \<and> recording s' = recording s \<and> isRecording s' = isRecording s)"

section \<open>Concrete inputs\<close>

text \<open>
  A runtime whose unmodelled conversions all give a question mark, two recordings, the
  permission request granted or denied, and one recording made and stopped by the
  suspended function at place \<open>i\<close>, with every call of the recorder fulfilled.
\<close>

definition rt0 :: runtime where
  "rt0 = \<lparr>toString_other = (\<lambda>v. [CHR 0x3F]), toFixed_other = (\<lambda>v. [CHR 0x3F]),
          json_stringify = (\<lambda>v. [CHR 0x3F])\<rparr>"

definition rec1 :: recording_obj where
  "rec1 = Recording 1 (Some ''file:///rec1.m4a'')"

definition rec2 :: recording_obj where
  "rec2 = Recording 2 (Some ''file:///rec2.m4a'')"

definition granted :: event where
  "granted = Settle 0 (FulfilledPermission ''granted'')"

definition denied :: event where
  "denied = Settle 0 (FulfilledPermission ''denied'')"

definition record_and_stop :: "recording_obj \<Rightarrow> nat \<Rightarrow> event list" where
  "record_and_stop r i =
     [Press, Settle i Fulfilled, Settle i (FulfilledRecording r),
      Press, Settle i Fulfilled, Settle i Fulfilled]"

definition uploading :: state where
  "uploading = run rt0 init (granted # record_and_stop rec1 0)"

definition about_to_record :: state where
  "about_to_record = run rt0 init [granted, Press, Settle 0 Fulfilled]"

definition recording_now :: state where
  "recording_now = step rt0 about_to_record (Settle 0 (FulfilledRecording rec1))"

definition after_cycle :: state where
  "after_cycle =
     step rt0 uploading (Settle 0 (FulfilledResponse (JObj [(''prediction'', JStr ''normal'')])))"

definition after_success :: state where
  "after_success =
     step rt0 uploading
       (Settle 0 (FulfilledResponse
          (JObj [(''prediction'', JStr ''hypernasal''),
                 (''confidence'', JNum (to_double (87 / 100)))])))"

section \<open>Invariants\<close>

text \<open>
  What holds after the permission was denied for as long as \<^verbatim>\<open>createAsync\<close> returns no
  recording: the record flag is off, no recording is stored or live, only starts are
  suspended, the first alert is the one of the permission request and every later one is
  a "Recording Error".
\<close>

definition permission_alert :: "string \<times> string" where
  "permission_alert =
     (''Permission required'', ''Please grant microphone access to use this app.'')"

definition refused :: "state \<Rightarrow> bool" where
  "refused s =
     (\<not> isRecording s \<and> recording s = None \<and> live s = [] \<and> confidence s = []
      \<and> set (tasks s) \<subseteq> {AwaitStartMode, AwaitCreate}
      \<and> alerts s \<noteq> [] \<and> hd (alerts s) = permission_alert
      \<and> list_all (\<lambda>a. fst a = ''Recording Error'') (tl (alerts s)))"

text \<open>
  What a suspended \<^verbatim>\<open>startRecording\<close> relies on: the recording it is stopping is the
  stored one, and once that stop is fulfilled no recording is live until its own
  \<^verbatim>\<open>createAsync\<close> returns.
\<close>

fun start_ok :: "state \<Rightarrow> task \<Rightarrow> bool" where
  "start_ok s (AwaitStopUnload ByStart r) = (recording s = Some r)"
| "start_ok s (AwaitStopMode ByStart r) = (recording s = Some r \<and> live s = [])"
| "start_ok s AwaitStartMode = (live s = [])"
| "start_ok s AwaitCreate = (live s = [])"
| "start_ok s t = True"

text \<open>The only recording that can be live is the stored one.\<close>

definition session_ok :: "state \<Rightarrow> bool" where
  "session_ok s =
     (case recording s of None \<Rightarrow> live s = [] | Some r \<Rightarrow> live s = [] \<or> live s = [rid r])"

definition one_session :: "state \<Rightarrow> bool" where
  "one_session s =
     (length (filter is_start (tasks s)) \<le> 1 \<and> session_ok s
      \<and> list_all (start_ok s) (tasks s))"

section \<open>Evaluating the number functions on numerals\<close>

lemma bitlen_numeral_eval:
  "bitlen (numeral k) = bitlen (numeral k div 2) + 1"
  "bitlen 1 = 1"
  by (subst compute_bitlen, simp)+

lemma floor_rat_numeral:
  "\<lfloor>numeral a / numeral b :: rat\<rfloor> = numeral a div numeral b"
  using floor_divide_of_int_eq [of "numeral a" "numeral b", where ?'a = rat] by simp

lemma ceiling_rat_numeral:
  "\<lceil>numeral a / numeral b :: rat\<rceil> = - ((- numeral a) div numeral b)"
  using floor_divide_of_int_eq [of "- numeral a" "numeral b", where ?'a = rat]
  by (simp add: ceiling_def)

section \<open>The rounding to binary64\<close>

text \<open>
  \<open>binade\<close> is the binary exponent, and \<open>to_double\<close> is within half a unit in the last
  place of its argument.
\<close>

lemma pow2_pos: "0 < pow2 e"
  by (simp add: pow2_def)

lemma pow2_nat: "pow2 (int n) = 2 ^ n"
  by (simp add: pow2_def)

lemma pow2_neg: "pow2 (- int n) = 1 / 2 ^ n"
  by (cases n) (simp_all add: pow2_def nat_add_distrib)

lemma pow2_Suc: "pow2 (e + 1) = 2 * pow2 e"
proof (cases "0 \<le> e")
  case True
  then show ?thesis by (simp add: pow2_def nat_add_distrib)
next
  case False
  then obtain n where e: "e = - int (Suc n)"
    by (metis add.inverse_inverse int_ops(4) negD not_le of_nat_Suc)
  have "e + 1 = - int n" using e by simp
  then show ?thesis
    unfolding e by (simp add: pow2_neg del: of_nat_Suc) (simp add: pow2_def)
qed

lemma binade_bounds:
  assumes "0 < a"
  shows "pow2 (binade a) \<le> a \<and> a < pow2 (binade a + 1)"
proof (cases "1 \<le> a")
  case True
  let ?n = "\<lfloor>a\<rfloor>"
  have n: "0 < ?n" using True by simp
  from bitlen_bounds [OF n]
  have lo: "2 ^ nat (bitlen ?n - 1) \<le> ?n" and hi: "?n < 2 ^ nat (bitlen ?n)" by simp_all
  have pos: "0 < bitlen ?n"
    using n by (metis bitlen_eq_zero_iff bitlen_nonneg le_less not_le)
  have "rat_of_int (2 ^ nat (bitlen ?n - 1)) \<le> rat_of_int ?n"
    using lo by (simp only: of_int_le_iff)
  also have "\<dots> \<le> a" by simp
  finally have 1: "pow2 (bitlen ?n - 1) \<le> a"
    using pos by (simp add: pow2_def)
  have "?n + 1 \<le> 2 ^ nat (bitlen ?n)" using hi by simp
  then have "rat_of_int (?n + 1) \<le> rat_of_int (2 ^ nat (bitlen ?n))"
    by (simp only: of_int_le_iff)
  moreover have "a < rat_of_int (?n + 1)" by linarith
  ultimately have 2: "a < pow2 (bitlen ?n)"
    using pos by (simp add: pow2_def)
  from 1 2 True show ?thesis by (simp add: binade_def)
next
  case False
  let ?b = "1 / a"
  let ?m = "\<lceil>?b\<rceil> - 1"
  have b: "1 < ?b" using False assms by simp
  then have m: "0 < ?m" by linarith
  from bitlen_bounds [OF m]
  have lo: "2 ^ nat (bitlen ?m - 1) \<le> ?m" and hi: "?m < 2 ^ nat (bitlen ?m)" by simp_all
  have pos: "0 < bitlen ?m"
    using m by (metis bitlen_eq_zero_iff bitlen_nonneg le_less not_le)
  have mb: "rat_of_int ?m < ?b" "?b \<le> rat_of_int (?m + 1)"
    by linarith+
  have "?m + 1 \<le> 2 ^ nat (bitlen ?m)" using hi by simp
  then have "rat_of_int (?m + 1) \<le> rat_of_int (2 ^ nat (bitlen ?m))"
    by (simp only: of_int_le_iff)
  moreover have "rat_of_int (2 ^ nat (bitlen ?m)) = 2 ^ nat (bitlen ?m)" by simp
  ultimately have "?b \<le> 2 ^ nat (bitlen ?m)"
    using mb(2) by (metis order_trans)
  then have "1 \<le> 2 ^ nat (bitlen ?m) * a"
    using assms by (simp add: field_simps)
  then have 1: "pow2 (- bitlen ?m) \<le> a"
    using pos by (simp add: pow2_def field_simps)
  have "rat_of_int (2 ^ nat (bitlen ?m - 1)) \<le> rat_of_int ?m"
    using lo by (simp only: of_int_le_iff)
  moreover have "rat_of_int (2 ^ nat (bitlen ?m - 1)) = 2 ^ nat (bitlen ?m - 1)" by simp
  ultimately have "2 ^ nat (bitlen ?m - 1) < ?b"
    using mb(1) by (metis le_less_trans)
  then have "a < 1 / 2 ^ nat (bitlen ?m - 1)"
    using assms by (simp add: field_simps)
  moreover have "pow2 (- bitlen ?m + 1) = 1 / 2 ^ nat (bitlen ?m - 1)"
    using pos by (auto simp: pow2_def)
  ultimately have 2: "a < pow2 (- bitlen ?m + 1)"
    by simp
  from 1 2 False show ?thesis by (simp add: binade_def)
qed

lemma round_half_even_near: "\<bar>rat_of_int (round_half_even y) - y\<bar> \<le> 1 / 2"
proof -
  obtain f where f: "f = \<lfloor>y\<rfloor>" by simp
  have "rat_of_int f \<le> y" and "y < rat_of_int f + 1"
    unfolding f by linarith+
  then show ?thesis
    unfolding round_half_even_def Let_def f [symmetric] by (auto simp: abs_if)
qed

lemma to_double_near:
  "\<bar>to_double x - x\<bar> \<le> pow2 (max (binade \<bar>x\<bar> - 52) (- 1074)) / 2"
proof (cases "x = 0")
  case True
  then show ?thesis
    using pow2_pos [of "max (binade \<bar>x\<bar> - 52) (- 1074)"] by (simp add: to_double_def)
next
  case False
  define p where "p = pow2 (max (binade \<bar>x\<bar> - 52) (- 1074))"
  define m where "m = rat_of_int (round_half_even (\<bar>x\<bar> / p))"
  have p: "0 < p" unfolding p_def by (rule pow2_pos)
  have "\<bar>m - \<bar>x\<bar> / p\<bar> \<le> 1 / 2"
    unfolding m_def by (rule round_half_even_near)
  then have "\<bar>m - \<bar>x\<bar> / p\<bar> * p \<le> 1 / 2 * p"
    using p by (intro mult_right_mono) simp_all
  moreover have "m * p - \<bar>x\<bar> = (m - \<bar>x\<bar> / p) * p"
    using p by (simp add: left_diff_distrib)
  then have "\<bar>m * p - \<bar>x\<bar>\<bar> = \<bar>m - \<bar>x\<bar> / p\<bar> * p"
    using p by (simp only: abs_mult abs_of_pos)
  ultimately have near: "\<bar>m * p - \<bar>x\<bar>\<bar> \<le> p / 2"
    by simp
  have td: "to_double x = sgn x * m * p"
    using False unfolding m_def p_def by (simp add: to_double_def Let_def)
  have "x = sgn x * \<bar>x\<bar>"
    by (simp only: mult_sgn_abs)
  then have "to_double x - x = sgn x * m * p - sgn x * \<bar>x\<bar>"
    unfolding td by simp
  also have "\<dots> = sgn x * (m * p - \<bar>x\<bar>)"
    by (simp only: right_diff_distrib mult.assoc)
  finally have "\<bar>to_double x - x\<bar> = \<bar>sgn x\<bar> * \<bar>m * p - \<bar>x\<bar>\<bar>"
    by (simp only: abs_mult)
  also have "\<bar>sgn x\<bar> = 1"
    using False by (simp only: abs_sgn_eq if_False)
  finally show ?thesis
    using near unfolding p_def by simp
qed

section \<open>Evaluating executions\<close>

lemmas exec_defs = run_def press_def settle_def handleRecordButtonPress_def startRecording_def
  stopRecording_def stopRecording_throw_def startRecording_catch_def uploadAudio_def alert_def
  uploads_def init_def rec1_def rec2_def granted_def denied_def record_and_stop_def Let_def

lemma to_double_087: "to_double (87 / 100) = 7836263351624663 / 9007199254740992"
  apply (simp add: to_double_def Let_def)
  apply (simp add: binade_def bitlen_numeral_eval ceiling_rat_numeral)
  apply (simp add: round_half_even_def pow2_def Let_def floor_rat_numeral)
  done

lemma to_double_087_times_100: "to_double (7836263351624663 / 9007199254740992 * 100) = 87"
  apply (simp add: to_double_def Let_def)
  apply (simp add: binade_def bitlen_numeral_eval floor_rat_numeral)
  apply (simp add: round_half_even_def pow2_def Let_def floor_rat_numeral)
  done

lemma show_nat_8700: "show_nat 8700 = ''8700''"
  by (simp add: show_nat.simps digit_char_def)

lemma show_nat_500: "show_nat 500 = ''500''"
  by (simp add: show_nat.simps digit_char_def)

lemma toFixed2_87: "toFixed2 87 = ''87.00''"
proof -
  have "nat \<lfloor>\<bar>87 :: rat\<bar> * 100 + 1 / 2\<rfloor> = 8700"
    by (simp add: floor_rat_numeral)
  then show ?thesis
    unfolding toFixed2_def Let_def by (simp add: show_nat_8700)
qed

lemma confidence_text_087:
  "confidence_text rt (JNum (7836263351624663 / 9007199254740992)) = ''87.00%''"
  unfolding confidence_text_def jsval.case Let_def to_double_087_times_100
  by (simp add: toFixed2_87)

section \<open>The response of the backend on the screen\<close>

text \<open>
  C4.  The backend answers \<^verbatim>\<open>{prediction:"hypernasal", confidence:0.87}\<close>, the number
  being the binary64 value nearest to 0.87.  Whatever the state and the file uploaded,
  the status shown is "hypernasal", the confidence cell is "87.00%" (the product
  \<^verbatim>\<open>0.87 * 100\<close> rounds to 87 exactly) and the screen shows it after "Confidence: ".
\<close>

theorem C4_hypernasal_087:
  "let s' = fst (resume rt (AwaitPost u)
                   (FulfilledResponse
                      (JObj [(''prediction'', JStr ''hypernasal''),
                             (''confidence'', JNum (to_double (87 / 100)))])) s)
   in prediction s' = JStr ''hypernasal'' \<and> confidence s' = ''87.00%''
      \<and> status_text (render s') = JStr ''hypernasal''
      \<and> confidence_line (render s') = Some ''Confidence: 87.00%''"
  unfolding to_double_087
  by (simp add: uploadAudio_response_def Let_def alert_def render_def confidence_text_087)

text \<open>
  C5.  A 2xx response whose body is an object with a label (a non-empty string; the empty
  string is falsy and counts as no prediction) and without a \<^verbatim>\<open>confidence\<close> member: the
  screen shows the label and no confidence line, the alert raised is "Prediction
  Received" and not an error, and \<^verbatim>\<open>uploadAudio\<close> returns.
\<close>

theorem C5_label_without_confidence:
  assumes "map_of fs ''prediction'' = Some (JStr label)" and "label \<noteq> []"
    and "map_of fs ''confidence'' = None"
  shows "let (s', k) = resume rt (AwaitPost u) (FulfilledResponse (JObj fs)) s
         in status_text (render s') = JStr label
            \<and> confidence_line (render s') = None
            \<and> alerts s' = alerts s @ [(''Prediction Received'', ''Prediction: '' @ label)]
            \<and> k = None"
  using assms
  by (simp add: uploadAudio_response_def alert_def render_def js_to_string_def)

theorem C5_label_without_confidence_witness:
  "let (s', k) = resume rt0 (AwaitPost ''file:///rec1.m4a'')
                   (FulfilledResponse (JObj [(''prediction'', JStr ''normal'')])) init
   in status_text (render s') = JStr ''normal''
      \<and> confidence_line (render s') = None
      \<and> alerts s' = alerts init @ [(''Prediction Received'', ''Prediction: normal'')]
      \<and> k = None"
  using C5_label_without_confidence [of "[(''prediction'', JStr ''normal'')]" "''normal''"
      rt0 "''file:///rec1.m4a''" init]
  by simp

text \<open>
  C6, as the spec states it, fails: for the body \<^verbatim>\<open>{prediction:"hypernasal"}\<close> the
  confidence cell is not "unknown".
\<close>

theorem C6_counterexample:
  "confidence (fst (resume rt0 (AwaitPost ''file:///rec1.m4a'')
       (FulfilledResponse (JObj [(''prediction'', JStr ''hypernasal'')])) init))
     \<noteq> ''unknown''"
  by (simp add: uploadAudio_response_def alert_def)

text \<open>
  C6, amended.  On the transition from Uploading to Success, when the body has a label
  and no \<^verbatim>\<open>confidence\<close> member, the confidence cell becomes the empty string.
\<close>

theorem C6_absent_confidence_is_empty:
  assumes "map_of fs ''prediction'' = Some (JStr label)" and "label \<noteq> []"
    and "map_of fs ''confidence'' = None"
  shows "confidence (fst (resume rt (AwaitPost u) (FulfilledResponse (JObj fs)) s)) = []"
  using assms by (simp add: uploadAudio_response_def alert_def)

theorem C6_absent_confidence_is_empty_witness:
  "confidence (fst (resume rt0 (AwaitPost ''file:///rec1.m4a'')
       (FulfilledResponse (JObj [(''prediction'', JStr ''hypernasal'')])) init)) = []"
  using C6_absent_confidence_is_empty [of "[(''prediction'', JStr ''hypernasal'')]"
      "''hypernasal''" rt0 "''file:///rec1.m4a''" init]
  by simp

text \<open>
  C10.  A 2xx response with a label and \<^verbatim>\<open>confidence\<close> equal to 0: the number 0 is
  falsy, so the confidence cell is the empty string and the screen shows no confidence
  line, exactly as without the member; the label is shown and the alert is the one of a
  success.
\<close>

theorem C10_zero_confidence:
  assumes "map_of fs ''prediction'' = Some (JStr label)" and "label \<noteq> []"
    and "map_of fs ''confidence'' = Some (JNum 0)"
  shows "let s' = fst (resume rt (AwaitPost u) (FulfilledResponse (JObj fs)) s)
         in confidence s' = [] \<and> confidence_line (render s') = None
            \<and> status_text (render s') = JStr label
            \<and> alerts s' = alerts s @ [(''Prediction Received'', ''Prediction: '' @ label)]"
  using assms
  by (simp add: uploadAudio_response_def alert_def render_def js_to_string_def)

theorem C10_zero_confidence_witness:
  "let s' = fst (resume rt0 (AwaitPost ''file:///rec1.m4a'')
                   (FulfilledResponse
                      (JObj [(''prediction'', JStr ''hypernasal''), (''confidence'', JNum 0)]))
                   init)
   in confidence s' = [] \<and> confidence_line (render s') = None
      \<and> status_text (render s') = JStr ''hypernasal''
      \<and> alerts s' = alerts init @ [(''Prediction Received'', ''Prediction: hypernasal'')]"
  using C10_zero_confidence
    [of "[(''prediction'', JStr ''hypernasal''), (''confidence'', JNum 0)]" "''hypernasal''"
      rt0 "''file:///rec1.m4a''" init]
  by simp

text \<open>
  C7.  The three ways an upload fails raise three different alerts: no response
  received (\<^verbatim>\<open>error.request\<close> set, no \<^verbatim>\<open>error.response\<close>) raises "Network Error"; a
  response outside 2xx raises "Backend Error" with the status code in its message; a 2xx
  response without a truthy \<^verbatim>\<open>prediction\<close> raises "Error" with "Prediction not found
  in backend response.".  The titles are pairwise different.
\<close>

theorem C7_failure_categories:
  assumes "\<not> (truthy data \<and> truthy (get_field data ''prediction''))"
  shows "let net = fst (resume rt (AwaitPost u) (Rejected (JsError m1 None True)) s);
             srv = fst (resume rt (AwaitPost u)
                          (Rejected (JsError m2 (Some (status, body)) rq)) s);
             bad = fst (resume rt (AwaitPost u) (FulfilledResponse data) s)
         in alerts net = alerts s @ [(''Network Error'',
              ''No response from backend. Is it running at http://localhost:8000/predict/?'')]
          \<and> alerts srv = alerts s @ [(''Backend Error'',
              ''Server responded with status '' @ show_nat status @ '': ''
                @ json_stringify rt body)]
          \<and> alerts bad = alerts s @ [(''Error'', ''Prediction not found in backend response.'')]
          \<and> fst (last (alerts net)) \<noteq> fst (last (alerts srv))
          \<and> fst (last (alerts net)) \<noteq> fst (last (alerts bad))
          \<and> fst (last (alerts srv)) \<noteq> fst (last (alerts bad))"
  using assms
  by (simp add: uploadAudio_response_def uploadAudio_catch_def alert_def backendUrl_def Let_def)

theorem C7_failure_categories_witness:
  "let net = fst (resume rt0 (AwaitPost ''u'') (Rejected (JsError ''timeout'' None True)) init);
       srv = fst (resume rt0 (AwaitPost ''u'')
                    (Rejected (JsError ''failed'' (Some (500, JNull)) True)) init);
       bad = fst (resume rt0 (AwaitPost ''u'') (FulfilledResponse (JObj [])) init)
   in alerts net = [(''Network Error'',
              ''No response from backend. Is it running at http://localhost:8000/predict/?'')]
          \<and> alerts srv = [(''Backend Error'', ''Server responded with status 500: ?'')]
          \<and> alerts bad = [(''Error'', ''Prediction not found in backend response.'')]"
  using C7_failure_categories
    [of "JObj []" rt0 "''u''" "''timeout''" init "''failed''" 500 JNull True]
  by (simp add: init_def rt0_def show_nat_500 Let_def)

section \<open>Concrete executions\<close>

lemma uploading_state:
  "uploading =
     \<lparr>recording = Some rec1, isRecording = False,
      prediction = JStr ''Sending to backend...'', confidence = [],
      vowelToRecord = ''a'', alerts = [], tasks = [AwaitPost ''file:///rec1.m4a''], live = []\<rparr>"
  unfolding uploading_def by (simp add: exec_defs)

lemma about_to_record_state: "about_to_record = init\<lparr>tasks := [AwaitCreate]\<rparr>"
  unfolding about_to_record_def by (simp add: exec_defs)

lemma after_cycle_state:
  "after_cycle =
     \<lparr>recording = Some rec1, isRecording = False,
      prediction = JStr ''normal'', confidence = [],
      vowelToRecord = ''a'', alerts = [(''Prediction Received'', ''Prediction: normal'')],
      tasks = [], live = []\<rparr>"
  unfolding after_cycle_def uploading_state
  by (simp add: exec_defs uploadAudio_response_def js_to_string_def)

lemma after_success_state:
  "after_success =
     \<lparr>recording = Some rec1, isRecording = False,
      prediction = JStr ''hypernasal'', confidence = ''87.00%'',
      vowelToRecord = ''a'', alerts = [(''Prediction Received'', ''Prediction: hypernasal'')],
      tasks = [], live = []\<rparr>"
  unfolding after_success_def uploading_state to_double_087
  by (simp add: exec_defs uploadAudio_response_def js_to_string_def confidence_text_087)

section \<open>Presses while an upload is in flight\<close>

text \<open>
  The record flag is turned off by the press that initiates a stop, before anything is
  awaited.
\<close>

lemma stop_turns_flag_off: "isRecording s \<Longrightarrow> \<not> isRecording (step rt s Press)"
  by (simp add: press_def handleRecordButtonPress_def stopRecording_def stopRecording_throw_def
      Let_def split: option.splits)

text \<open>
  C1, as the spec states it, fails.  After one recording was made and stopped, its upload
  is in flight and the record flag is off.  A press then is not ignored: it suspends a
  \<^verbatim>\<open>startRecording\<close> that stops the stored recording again.  When the recorder rejects
  that stop, the status becomes "Error" and an alert is raised; when the recorder fulfils
  every call, a second recording starts during the upload, and stopping it puts a second
  upload in flight beside the first.
\<close>

theorem C1_counterexample:
  "uploads uploading = 1 \<and> \<not> isRecording uploading
   \<and> step rt0 uploading Press \<noteq> uploading
   \<and> prediction (run rt0 uploading
         [Press, Settle 1 (Rejected (JsError ''already unloaded'' None False))])
       = JStr ''Error''
   \<and> isRecording (run rt0 uploading
         [Press, Settle 1 Fulfilled, Settle 1 Fulfilled, Settle 1 Fulfilled,
          Settle 1 (FulfilledRecording rec2)])
   \<and> uploads (run rt0 uploading
         ([Press, Settle 1 Fulfilled, Settle 1 Fulfilled, Settle 1 Fulfilled,
           Settle 1 (FulfilledRecording rec2)] @ [Press, Settle 1 Fulfilled, Settle 1 Fulfilled]))
       = 2"
  unfolding uploading_state
  by (simp add: exec_defs)

text \<open>
  C1, amended.  A press that arrives while the record flag is off, as it is from the
  moment a stop is initiated and through the upload, is not ignored: it calls
  \<^verbatim>\<open>startRecording\<close>, which is suspended at the stop of the stored recording, or at
  \<^verbatim>\<open>setAudioModeAsync\<close> when none is stored.  The press writes no cell of the component
  and starts no upload itself.
\<close>

theorem C1_press_while_flag_off:
  assumes "\<not> isRecording s"
  shows "step rt s Press =
           s\<lparr>tasks := tasks s @ [case recording s of
                                     None \<Rightarrow> AwaitStartMode
                                   | Some r \<Rightarrow> AwaitStopUnload ByStart r]\<rparr>
         \<and> uploads (step rt s Press) = uploads s
         \<and> step rt s Press \<noteq> s"
proof -
  let ?t = "case recording s of None \<Rightarrow> AwaitStartMode | Some r \<Rightarrow> AwaitStopUnload ByStart r"
  have eq: "step rt s Press = s\<lparr>tasks := tasks s @ [?t]\<rparr>"
    using assms
    by (simp add: press_def handleRecordButtonPress_def startRecording_def stopRecording_def
        split: option.splits)
  have "\<not> is_upload ?t"
    by (simp split: option.splits)
  then have up: "uploads (step rt s Press) = uploads s"
    unfolding eq by (simp add: uploads_def)
  have "tasks (step rt s Press) \<noteq> tasks s"
    unfolding eq by simp
  then have "step rt s Press \<noteq> s"
    by auto
  with eq up show ?thesis by simp
qed

theorem C1_press_while_flag_off_witness:
  "\<not> isRecording uploading
   \<and> step rt0 uploading Press =
       uploading\<lparr>tasks := [AwaitPost ''file:///rec1.m4a'', AwaitStopUnload ByStart rec1]\<rparr>
   \<and> uploads (step rt0 uploading Press) = 1"
  using C1_press_while_flag_off [of uploading rt0]
  by (simp add: uploading_state uploads_def)

section \<open>Permission denied\<close>

lemma set_tasks_update: "set (xs[i := t]) \<subseteq> insert t (set xs)"
  by (rule set_update_subset_insert)

lemma set_tasks_delete: "set (take i xs @ drop (Suc i) xs) \<subseteq> set xs"
  using set_take_subset [of i xs] set_drop_subset [of "Suc i" xs] by auto

lemma refused_after_denial:
  assumes "status \<noteq> ''granted''"
  shows "refused (step rt init (Settle 0 (FulfilledPermission status)))"
  using assms by (simp add: refused_def settle_def init_def alert_def permission_alert_def)

lemma refused_press: "refused s \<Longrightarrow> refused (press s)"
  by (simp add: refused_def press_def handleRecordButtonPress_def startRecording_def)

lemma refused_resume:
  assumes "refused s" and "t = AwaitStartMode \<or> t = AwaitCreate"
    and "\<forall>x. r \<noteq> FulfilledRecording x" and "resume rt t r s = (s', k)"
  shows "refused (s'\<lparr>tasks := ts\<rparr>) = refused (s\<lparr>tasks := ts\<rparr>)
         \<and> (k = None \<or> k = Some AwaitStartMode \<or> k = Some AwaitCreate)"
  using assms
  by (cases r) (auto simp: refused_def startRecording_catch_def alert_def
      hd_append2 tl_append2)

lemma refused_settle:
  assumes "refused s" and "\<forall>x. r \<noteq> FulfilledRecording x"
  shows "refused (settle rt i r s)"
proof (cases "i < length (tasks s)")
  case False
  with assms show ?thesis by (simp add: settle_def)
next
  case True
  obtain s' k where res: "resume rt (tasks s ! i) r s = (s', k)"
    by (cases "resume rt (tasks s ! i) r s")
  from assms(1) True have t: "tasks s ! i = AwaitStartMode \<or> tasks s ! i = AwaitCreate"
    by (auto simp: refused_def dest: nth_mem)
  let ?ts = "case k of Some t \<Rightarrow> (tasks s)[i := t]
                     | None \<Rightarrow> take i (tasks s) @ drop (Suc i) (tasks s)"
  from refused_resume [OF assms(1) t assms(2) res, of ?ts]
  have eq: "refused (s'\<lparr>tasks := ?ts\<rparr>) = refused (s\<lparr>tasks := ?ts\<rparr>)"
    and k: "k = None \<or> k = Some AwaitStartMode \<or> k = Some AwaitCreate"
    by simp_all
  have old: "set (tasks s) \<subseteq> {AwaitStartMode, AwaitCreate}"
    using assms(1) by (simp add: refused_def)
  have "set ?ts \<subseteq> {AwaitStartMode, AwaitCreate}"
  proof (cases k)
    case None
    show ?thesis
      unfolding None option.simps by (rule subset_trans [OF set_tasks_delete old])
  next
    case (Some t')
    with k have "t' \<in> {AwaitStartMode, AwaitCreate}" by auto
    with old have "insert t' (set (tasks s)) \<subseteq> {AwaitStartMode, AwaitCreate}"
      by auto
    then show ?thesis
      unfolding Some option.simps by (rule subset_trans [OF set_tasks_update])
  qed
  then have "refused (s\<lparr>tasks := ?ts\<rparr>)"
    using assms(1) by (simp add: refused_def)
  with eq have "refused (s'\<lparr>tasks := ?ts\<rparr>)" by simp
  then show ?thesis
    using True res by (simp add: settle_def)
qed

lemma refused_step:
  assumes "refused s" and "\<not> is_created e"
  shows "refused (step rt s e)"
proof (cases e)
  case Press
  with assms show ?thesis by (simp add: refused_press)
next
  case (Settle i r)
  with assms(2) have "\<forall>x. r \<noteq> FulfilledRecording x" by auto
  with assms(1) Settle show ?thesis by (simp add: refused_settle)
qed

lemma refused_run:
  "refused s \<Longrightarrow> \<forall>e \<in> set es. \<not> is_created e \<Longrightarrow> refused (run rt s es)"
  unfolding run_def
  by (induction es arbitrary: s) (simp_all add: refused_step)

text \<open>
  C2, as the spec states it, fails.  The screen rendered after the permission was denied
  is the screen rendered after it was granted: the denial leaves nothing on the screen,
  only one alert at mount.  The result of the request is stored nowhere and a press
  still calls the recorder: if \<^verbatim>\<open>createAsync\<close> returns a recording, the machine records.
\<close>

theorem C2_counterexample:
  "render (run rt0 init [denied]) = render (run rt0 init [granted])
   \<and> isRecording (run rt0 init [denied, Press, Settle 0 Fulfilled,
                                    Settle 0 (FulfilledRecording rec1)])"
  by (simp add: exec_defs render_def)

text \<open>
  C2, amended.  If the permission was denied at startup, one alert "Permission required"
  is raised at mount.  In every execution after that in which \<^verbatim>\<open>createAsync\<close> never
  returns a recording, whatever is pressed and whatever else the recorder answers, the
  record flag stays off, no recording is stored or live, no upload is started, the button
  reads "Start Recording", and every further alert is a "Recording Error" raised by the
  attempt that failed.
\<close>

theorem C2_denied_and_refused:
  assumes "status \<noteq> ''granted''" and "\<forall>e \<in> set es. \<not> is_created e"
  shows "let s = run rt init (Settle 0 (FulfilledPermission status) # es)
         in \<not> isRecording s \<and> recording s = None \<and> uploads s = 0 \<and> live s = []
            \<and> hd (alerts s) = (''Permission required'',
                                 ''Please grant microphone access to use this app.'')
            \<and> (\<forall>a \<in> set (tl (alerts s)). fst a = ''Recording Error'')
            \<and> confidence_line (render s) = None
            \<and> button_title (render s) = ''Start Recording''"
proof -
  let ?s = "run rt init (Settle 0 (FulfilledPermission status) # es)"
  have "?s = run rt (step rt init (Settle 0 (FulfilledPermission status))) es"
    by (simp add: run_def)
  then have r: "refused ?s"
    using refused_run [OF refused_after_denial [OF assms(1)] assms(2)] by simp
  then have "\<forall>t \<in> set (tasks ?s). \<not> is_upload t"
    by (auto simp: refused_def)
  then have "uploads ?s = 0"
    by (simp add: uploads_def filter_empty_conv)
  with r show ?thesis
    unfolding Let_def
    by (simp add: refused_def render_def permission_alert_def list_all_iff)
qed

theorem C2_denied_and_refused_witness:
  "alerts (run rt0 init [denied, Press, Settle 0 Fulfilled,
       Settle 0 (Rejected (JsError ''Missing audio recording permissions.'' None False))]) =
     [(''Permission required'', ''Please grant microphone access to use this app.''),
      (''Recording Error'',
       ''Failed to start recording: Missing audio recording permissions.. Check browser microphone permissions.'')]
   \<and> \<not> isRecording (run rt0 init [denied, Press, Settle 0 Fulfilled,
       Settle 0 (Rejected (JsError ''Missing audio recording permissions.'' None False))])
   \<and> uploads (run rt0 init [denied, Press, Settle 0 Fulfilled,
       Settle 0 (Rejected (JsError ''Missing audio recording permissions.'' None False))]) = 0"
  using C2_denied_and_refused [of "''denied''" "[Press, Settle 0 Fulfilled,
       Settle 0 (Rejected (JsError ''Missing audio recording permissions.'' None False))]" rt0]
  unfolding Let_def
  by (simp add: exec_defs)

section \<open>After a cycle\<close>

text \<open>
  C3.  The code does not do what the claim says.  The \<^verbatim>\<open>recording\<close> cell is written
  only at line 53 and never cleared, so after a cycle the guard of lines 28 to 30 finds
  the recording of that cycle and the next press stops it once more before anything
  else.  The input: one cycle in which the recorder fulfils every call and the backend
  answers with a prediction; the machine is idle, the recording of the cycle is stored
  and no longer live.  At the next press the recorder rejects the stop of that unloaded
  recording.  The start ends in the \<^verbatim>\<open>catch\<close>: an alert, the status "Error", the record
  flag off, no \<^verbatim>\<open>createAsync\<close> called, and the same recording still stored, so that
  the press after it fails in the same way.
\<close>

theorem C3_second_start_fails:
  "tasks after_cycle = [] \<and> \<not> isRecording after_cycle
   \<and> recording after_cycle = Some rec1 \<and> rid rec1 \<notin> set (live after_cycle)
   \<and> tasks (step rt0 after_cycle Press) = [AwaitStopUnload ByStart rec1]
   \<and> prediction (run rt0 after_cycle
         [Press, Settle 0 (Rejected (JsError
            ''Cannot unload a Recording that has already been unloaded.'' None False))])
       = JStr ''Error''
   \<and> \<not> isRecording (run rt0 after_cycle
         [Press, Settle 0 (Rejected (JsError
            ''Cannot unload a Recording that has already been unloaded.'' None False))])
   \<and> tasks (run rt0 after_cycle
         [Press, Settle 0 (Rejected (JsError
            ''Cannot unload a Recording that has already been unloaded.'' None False))]) = []
   \<and> recording (run rt0 after_cycle
         [Press, Settle 0 (Rejected (JsError
            ''Cannot unload a Recording that has already been unloaded.'' None False))])
       = Some rec1
   \<and> map fst (alerts (run rt0 after_cycle
         [Press, Settle 0 (Rejected (JsError
            ''Cannot unload a Recording that has already been unloaded.'' None False)),
          Press, Settle 0 (Rejected (JsError
            ''Cannot unload a Recording that has already been unloaded.'' None False))]))
       = [''Prediction Received'', ''Recording Error'', ''Recording Error'']"
  unfolding after_cycle_state
  by (simp add: exec_defs)

section \<open>The cells a step writes\<close>

lemma press_cells:
  "vowelToRecord (press s) = vowelToRecord s \<and> prediction (press s) = prediction s
   \<and> confidence (press s) = confidence s \<and> recording (press s) = recording s
   \<and> \<not> isRecording (press s)"
  by (simp add: press_def handleRecordButtonPress_def startRecording_def stopRecording_def
      stopRecording_throw_def Let_def split: option.splits)

lemma resume_cells:
  assumes "resume rt t r s = (s', k)"
  shows "vowelToRecord s' = vowelToRecord s
         \<and> (case transition_of t r of
               None \<Rightarrow> prediction s' = prediction s \<and> confidence s' = confidence s
                         \<and> recording s' = recording s \<and> isRecording s' = isRecording s
             | Some tr \<Rightarrow> cells_after rt s s' tr)"
  using assms
  by (cases "(rt, t, r, s)" rule: resume.cases; cases t; cases r)
    (auto simp: alert_def startRecording_catch_def stopRecording_throw_def uploadAudio_def
      uploadAudio_response_def uploadAudio_catch_def has_uri_def Let_def
      split: caller.splits option.splits if_splits)

lemma recording_now_state:
  "recording_now =
     \<lparr>recording = Some rec1, isRecording = True,
      prediction = JStr ''Recording...'', confidence = [],
      vowelToRecord = ''a'', alerts = [], tasks = [], live = [1]\<rparr>"
  unfolding recording_now_def about_to_record_state
  by (simp add: exec_defs)

text \<open>
  C8, as the spec states it, fails.  The step in which \<^verbatim>\<open>createAsync\<close> returns
  writes the status and, with it, the record flag and the stored recording; the title of
  the button on the screen changes as well.  The confidence string is written outside
  the Success step: the "87.00%" of the last success is cleared when the next start has
  stopped the stored recording (lines 81 and 82).  And the press that initiates the stop
  writes the record flag and no status string.
\<close>

theorem C8_counterexample:
  "prediction (step rt0 about_to_record (Settle 0 (FulfilledRecording rec1)))
     \<noteq> prediction about_to_record
   \<and> isRecording (step rt0 about_to_record (Settle 0 (FulfilledRecording rec1)))
     \<noteq> isRecording about_to_record
   \<and> recording (step rt0 about_to_record (Settle 0 (FulfilledRecording rec1)))
     \<noteq> recording about_to_record
   \<and> button_title (render (step rt0 about_to_record (Settle 0 (FulfilledRecording rec1))))
     \<noteq> button_title (render about_to_record)
   \<and> confidence after_success = ''87.00%''
   \<and> confidence (run rt0 after_success [Press, Settle 0 Fulfilled, Settle 0 Fulfilled]) = []
   \<and> isRecording (step rt0 recording_now Press) \<noteq> isRecording recording_now
   \<and> prediction (step rt0 recording_now Press) = prediction recording_now"
  unfolding about_to_record_state after_success_state recording_now_state
  by (simp add: exec_defs render_def)

text \<open>
  C8, amended.  No step changes \<^verbatim>\<open>vowelToRecord\<close>, and every step writes the other
  four cells of the component exactly as follows.  When \<^verbatim>\<open>createAsync\<close> returns: the
  status is "Recording...", the confidence is cleared, the recording is stored and the
  record flag is on.  When a start fails: the status is "Error" and the record flag is
  off.  When a stop completes: the status is "Sending to backend..." if the press called
  the stop and the recording has a URI, "Processing..." otherwise, and the confidence is
  cleared.  On Success: the status is the prediction of the response, and the confidence
  is the formatted confidence of the response, or empty when that is falsy.  On a
  response without prediction and on a failed upload: the status is the error string of
  the branch and the confidence is cleared.  Every other step (a press, the reply to the
  permission request, an \<^verbatim>\<open>await\<close> in between, a rejection that nothing catches)
  leaves the status, the confidence and the stored recording as they are, and only a
  press among them writes the record flag, turning it off.
\<close>

theorem C8_cells_written:
  "vowelToRecord (step rt s e) = vowelToRecord s
   \<and> (case taken s e of
         None \<Rightarrow> prediction (step rt s e) = prediction s
                   \<and> confidence (step rt s e) = confidence s
                   \<and> recording (step rt s e) = recording s
                   \<and> isRecording (step rt s e) = (if e = Press then False else isRecording s)
       | Some tr \<Rightarrow> cells_after rt s (step rt s e) tr)"
proof (cases e)
  case Press
  then show ?thesis using press_cells [of s] by simp
next
  case (Settle i r)
  show ?thesis
  proof (cases "i < length (tasks s)")
    case False
    with Settle show ?thesis by (simp add: settle_def)
  next
    case True
    obtain s' k where res: "resume rt (tasks s ! i) r s = (s', k)"
      by (cases "resume rt (tasks s ! i) r s")
    let ?s'' = "settle rt i r s"
    have cells: "vowelToRecord ?s'' = vowelToRecord s'" "prediction ?s'' = prediction s'"
      "confidence ?s'' = confidence s'" "recording ?s'' = recording s'"
      "isRecording ?s'' = isRecording s'"
      using True res by (simp_all add: settle_def)
    have same: "cells_after rt s ?s'' tr = cells_after rt s s' tr" for tr
      by (cases tr) (simp_all add: cells)
    from resume_cells [OF res] show ?thesis
      using Settle True by (simp add: cells same split: option.splits)
  qed
qed

section \<open>One recording at a time\<close>

lemma is_start_caller [simp]:
  "is_start (AwaitStopUnload c r) = (c = ByStart)"
  "is_start (AwaitStopMode c r) = (c = ByStart)"
  by (cases c; simp)+

lemma start_ok_caller [simp]:
  "start_ok s (AwaitStopUnload c r) = (c = ByStart \<longrightarrow> recording s = Some r)"
  "start_ok s (AwaitStopMode c r) = (c = ByStart \<longrightarrow> recording s = Some r \<and> live s = [])"
  by (cases c; simp)+

lemma start_ok_other: "\<not> is_start t \<Longrightarrow> start_ok s t"
  by (cases "(s, t)" rule: start_ok.cases) simp_all

lemma start_ok_frame:
  assumes "start_ok s t" and "recording s' = recording s"
    and "live s' = live s \<or> live s' = removeAll x (live s)"
  shows "start_ok s' t"
  using assms by (cases "(s, t)" rule: start_ok.cases) auto

lemma session_ok_frame:
  assumes "session_ok s" and "recording s' = recording s"
    and "live s' = live s \<or> live s' = removeAll x (live s)"
  shows "session_ok s'"
  using assms by (auto simp: session_ok_def split: option.splits if_splits)

lemma resume_other:
  assumes "resume rt t r s = (s', k)" and "\<not> is_start t"
  shows "recording s' = recording s
         \<and> (live s' = live s \<or> (\<exists>x. live s' = removeAll x (live s)))
         \<and> (\<forall>t'. k = Some t' \<longrightarrow> \<not> is_start t')"
  using assms
  by (cases "(rt, t, r, s)" rule: resume.cases)
    (auto simp: alert_def stopRecording_throw_def uploadAudio_def
      uploadAudio_response_def uploadAudio_catch_def Let_def
      split: caller.splits option.splits if_splits)

lemma resume_start:
  assumes "resume rt t r s = (s', k)" and "is_start t" and "start_ok s t" and "session_ok s"
  shows "session_ok s' \<and> (\<forall>t'. k = Some t' \<longrightarrow> start_ok s' t')"
  using assms
  by (cases "(rt, t, r, s)" rule: resume.cases)
    (auto simp: alert_def stopRecording_throw_def startRecording_catch_def session_ok_def
      Let_def split: caller.splits option.splits if_splits)


lemma start_ok_tasks [simp]: "start_ok (s\<lparr>tasks := ts\<rparr>) = start_ok s"
proof
  fix t
  show "start_ok (s\<lparr>tasks := ts\<rparr>) t = start_ok s t"
    by (cases "(s, t)" rule: start_ok.cases) simp_all
qed

lemma session_ok_tasks [simp]: "session_ok (s\<lparr>tasks := ts\<rparr>) = session_ok s"
  by (simp add: session_ok_def split: option.splits)

lemma tasks_split:
  assumes "i < length xs"
  shows "length (filter P xs) =
           length (filter P (take i xs @ drop (Suc i) xs)) + (if P (xs ! i) then 1 else 0)"
    and "list_all Q xs = (list_all Q (take i xs @ drop (Suc i) xs) \<and> Q (xs ! i))"
proof -
  have xs: "xs = take i xs @ xs ! i # drop (Suc i) xs"
    using assms by (rule id_take_nth_drop)
  show "length (filter P xs) =
           length (filter P (take i xs @ drop (Suc i) xs)) + (if P (xs ! i) then 1 else 0)"
    by (subst xs) simp
  show "list_all Q xs = (list_all Q (take i xs @ drop (Suc i) xs) \<and> Q (xs ! i))"
    by (subst xs) auto
qed

lemma tasks_update:
  assumes "i < length xs"
  shows "length (filter P (xs[i := t])) =
           length (filter P (take i xs @ drop (Suc i) xs)) + (if P t then 1 else 0)"
    and "list_all Q (xs[i := t]) = (list_all Q (take i xs @ drop (Suc i) xs) \<and> Q t)"
proof -
  have xs: "xs[i := t] = take i xs @ t # drop (Suc i) xs"
    using assms by (rule upd_conv_take_nth_drop)
  show "length (filter P (xs[i := t])) =
           length (filter P (take i xs @ drop (Suc i) xs)) + (if P t then 1 else 0)"
    unfolding xs by simp
  show "list_all Q (xs[i := t]) = (list_all Q (take i xs @ drop (Suc i) xs) \<and> Q t)"
    unfolding xs by auto
qed

lemma no_start_all_ok: "filter is_start ts = [] \<Longrightarrow> list_all (start_ok s) ts"
  by (induction ts) (auto simp: start_ok_other split: if_splits)

lemma one_session_press:
  assumes "one_session s" and "filter is_start (tasks s) = []"
  shows "one_session (press s)"
  using assms
  by (auto simp: one_session_def press_def handleRecordButtonPress_def startRecording_def
      stopRecording_def stopRecording_throw_def session_ok_def Let_def
      no_start_all_ok [OF assms(2)] split: option.splits)

lemma one_session_settle:
  assumes "one_session s"
  shows "one_session (settle rt i r s)"
proof (cases "i < length (tasks s)")
  case False
  with assms show ?thesis by (simp add: settle_def)
next
  case True
  let ?t = "tasks s ! i"
  let ?rest = "take i (tasks s) @ drop (Suc i) (tasks s)"
  obtain s' k where res: "resume rt ?t r s = (s', k)"
    by (cases "resume rt ?t r s")
  let ?ts = "case k of Some t' \<Rightarrow> (tasks s)[i := t'] | None \<Rightarrow> ?rest"
  have out: "settle rt i r s = s'\<lparr>tasks := ?ts\<rparr>"
    using True res by (simp add: settle_def)
  from assms have count: "length (filter is_start ?rest) + (if is_start ?t then 1 else 0) \<le> 1"
    and sess: "session_ok s"
    and rest_ok: "list_all (start_ok s) ?rest" and t_ok: "start_ok s ?t"
    using tasks_split [OF True, of is_start] tasks_split [OF True, of "start_ok s"]
    by (simp_all add: one_session_def)
  have new: "session_ok s' \<and> list_all (start_ok s') ?rest
      \<and> (\<forall>t'. k = Some t' \<longrightarrow> start_ok s' t' \<and> (is_start t' \<longrightarrow> is_start ?t))"
  proof (cases "is_start ?t")
    case True
    with count have none: "filter is_start ?rest = []" by simp
    from resume_start [OF res True t_ok sess] no_start_all_ok [OF none, of s'] True
    show ?thesis by simp
  next
    case False
    from resume_other [OF res False]
    obtain x where rec: "recording s' = recording s"
      and lv: "live s' = live s \<or> live s' = removeAll x (live s)"
      and k: "\<forall>t'. k = Some t' \<longrightarrow> \<not> is_start t'"
      by auto
    have "list_all (start_ok s') ?rest"
      using rest_ok start_ok_frame [OF _ rec lv] by (auto simp: list_all_iff)
    then show ?thesis
      using session_ok_frame [OF sess rec lv] k by (simp add: start_ok_other)
  qed
  have "one_session (s'\<lparr>tasks := ?ts\<rparr>)"
  proof (cases k)
    case None
    with count new show ?thesis
      by (simp add: one_session_def)
  next
    case (Some t')
    with new have "start_ok s' t'" and "is_start t' \<longrightarrow> is_start ?t" by simp_all
    with count new Some show ?thesis
      using tasks_update [OF True, of is_start t'] tasks_update [OF True, of "start_ok s'" t']
      by (auto simp: one_session_def)
  qed
  with out show ?thesis by simp
qed

lemma one_session_run:
  "one_session s \<Longrightarrow> calm rt s es \<Longrightarrow> one_session (run rt s es)"
  unfolding run_def
proof (induction es arbitrary: s)
  case Nil
  then show ?case by simp
next
  case (Cons e es)
  have "one_session (step rt s e)"
  proof (cases e)
    case Press
    with Cons.prems show ?thesis by (simp add: one_session_press)
  next
    case (Settle i r)
    with Cons.prems show ?thesis by (simp add: one_session_settle)
  qed
  with Cons show ?case by simp
qed

lemma one_session_init: "one_session init"
  by (simp add: one_session_def session_ok_def init_def)

text \<open>
  C9, as the spec states it, fails.  Two presses before the first \<^verbatim>\<open>startRecording\<close>
  has reached \<^verbatim>\<open>createAsync\<close>: both calls find no stored recording and the record flag
  off.  The first creates its recording; the second, still suspended at line 47, goes on
  to \<^verbatim>\<open>createAsync\<close> while that recording is live, without looking at the component
  again.  When the recorder lets it, the first recording is replaced in the component
  without having been stopped, and two recordings are live.
\<close>

theorem C9_counterexample:
  "live (run rt0 init [granted, Press, Press, Settle 0 Fulfilled,
                        Settle 0 (FulfilledRecording rec1)]) = [1]
   \<and> tasks (run rt0 init [granted, Press, Press, Settle 0 Fulfilled,
                        Settle 0 (FulfilledRecording rec1)]) = [AwaitStartMode]
   \<and> live (run rt0 init [granted, Press, Press, Settle 0 Fulfilled,
                        Settle 0 (FulfilledRecording rec1),
                        Settle 0 Fulfilled, Settle 0 (FulfilledRecording rec2)]) = [2, 1]
   \<and> recording (run rt0 init [granted, Press, Press, Settle 0 Fulfilled,
                        Settle 0 (FulfilledRecording rec1),
                        Settle 0 Fulfilled, Settle 0 (FulfilledRecording rec2)]) = Some rec2"
  by (simp add: exec_defs)

text \<open>
  C9, amended.  In every execution in which no press arrives while a \<^verbatim>\<open>startRecording\<close>
  is suspended, at most one recording is live at every point, and it is the one stored in
  the component: \<^verbatim>\<open>startRecording\<close> stops the stored recording (lines 28 to 30) and
  calls \<^verbatim>\<open>createAsync\<close> only after that stop was fulfilled.
\<close>

theorem C9_one_session_when_calm:
  assumes "calm rt init es"
  shows "let s = run rt init es
         in length (live s) \<le> 1 \<and> set (live s) \<subseteq> rid ` set_option (recording s)"
proof -
  have "one_session (run rt init es)"
    using one_session_init assms by (rule one_session_run)
  then show ?thesis
    unfolding Let_def by (auto simp: one_session_def session_ok_def split: option.splits)
qed

theorem C9_one_session_when_calm_witness:
  "calm rt0 init (granted # record_and_stop rec1 0 @ [Press, Settle 1 Fulfilled,
       Settle 1 Fulfilled, Settle 1 Fulfilled, Settle 1 (FulfilledRecording rec2)])
   \<and> live (run rt0 init (granted # record_and_stop rec1 0 @ [Press, Settle 1 Fulfilled,
       Settle 1 Fulfilled, Settle 1 Fulfilled, Settle 1 (FulfilledRecording rec2)])) = [2]
   \<and> recording (run rt0 init (granted # record_and_stop rec1 0 @ [Press, Settle 1 Fulfilled,
       Settle 1 Fulfilled, Settle 1 Fulfilled, Settle 1 (FulfilledRecording rec2)])) = Some rec2"
  using C9_one_session_when_calm [of rt0 "granted # record_and_stop rec1 0 @ [Press,
       Settle 1 Fulfilled, Settle 1 Fulfilled, Settle 1 Fulfilled,
       Settle 1 (FulfilledRecording rec2)]"]
  unfolding Let_def
  by (simp add: exec_defs)

end
